theory Spec2Isabelle
  imports Main "HOL-Library.Word"
begin

section \<open>cmd/feed-dns: the package-level variables\<close>

text \<open>
  \<^verbatim>\<open>time.Duration\<close> is an \<^verbatim>\<open>int64\<close> count of nanoseconds. Go's \<^verbatim>\<open>int\<close> values of this
  file (ports, intervals, the retry count) are only stored and handed on, never computed
  with, so they are plain integers.
\<close>

type_synonym duration = "64 word"

definition Second :: duration where
  "Second = 1000000000"

definition Minute :: duration where
  "Minute = 60 * Second"

text \<open>The \<^verbatim>\<open>var ( ... )\<close> block of main.go, one field per variable, in its order.\<close>

record globals =
  debug :: bool
  kubeconfig :: string
  resyncPeriod :: duration
  healthPort :: int
  albNames :: "string list"
  elbLabelValue :: string
  elbRegion :: string
  r53HostedZone :: string
  pushgatewayURL :: string
  pushgatewayIntervalSeconds :: int
  pushgatewayLabels :: "(string \<times> string) list"
  awsAPIRetries :: int
  internalHostname :: string
  externalHostname :: string
  cnameTimeToLive :: duration
  dnsProvider :: string
  cdnsHostedZone :: string
  cdnsInstanceGroupPrefix :: string

text \<open>Before \<^verbatim>\<open>init\<close> runs, every package-level variable holds the zero value of its type.\<close>

definition zero_globals :: globals where
  "zero_globals =
     \<lparr> debug = False, kubeconfig = [], resyncPeriod = 0, healthPort = 0, albNames = [],
       elbLabelValue = [], elbRegion = [], r53HostedZone = [], pushgatewayURL = [],
       pushgatewayIntervalSeconds = 0, pushgatewayLabels = [], awsAPIRetries = 0,
       internalHostname = [], externalHostname = [], cnameTimeToLive = 0,
       dnsProvider = [], cdnsHostedZone = [], cdnsInstanceGroupPrefix = [] \<rparr>"

section \<open>The other packages, at their interface\<close>

text \<open>
  main.go calls into the standard library and into packages \<^verbatim>\<open>adapter\<close>, \<^verbatim>\<open>cdns\<close>, \<^verbatim>\<open>dns\<close>,
  \<^verbatim>\<open>k8s\<close>, \<^verbatim>\<open>controller\<close> and \<^verbatim>\<open>util/cmd\<close>. Their bodies are not part of this file, so
  the objects they build are recorded by constructor and arguments, and whether a call
  returns an error is a parameter (record \<open>extern\<close> below).
\<close>

record AWSAdapterConfig =
  Region :: string
  HostedZoneID :: string
  ELBLabelValue :: string
  ALBNames :: "string list"

record cdns_Config =
  InstanceGroupPrefix :: string
  HostedZone :: string

datatype adapter =
    NewStaticHostnameAdapter "string \<rightharpoonup> string" duration
  | NewAWSAdapter AWSAdapterConfig
  | cdns_NewAdapter cdns_Config

datatype updater =
    dns_New string adapter int
  | cdns_NewUpdater cdns_Config

text \<open>The adapter an updater was handed when it was built, if it was handed one.\<close>

fun updater_adapter :: "updater \<Rightarrow> adapter option" where
  "updater_adapter (dns_New zone a retries) = Some a"
| "updater_adapter (cdns_NewUpdater config) = None"

text \<open>The retry bound an updater was handed when it was built, if it was handed one.\<close>

fun updater_retries :: "updater \<Rightarrow> int option" where
  "updater_retries (dns_New zone a retries) = Some retries"
| "updater_retries (cdns_NewUpdater config) = None"

record extern =
  ParseBool :: "string \<Rightarrow> bool option"
  ParseInt :: "string \<Rightarrow> int option"
  ParseDuration :: "string \<Rightarrow> duration option"
  CommaSeparatedValues_Set :: "string list \<Rightarrow> string \<Rightarrow> string list option"
  KeyValues_Set :: "(string \<times> string) list \<Rightarrow> string \<Rightarrow> (string \<times> string) list option"
  k8s_New_err :: "string \<Rightarrow> duration \<Rightarrow> string option"
  NewAWSAdapter_err :: "AWSAdapterConfig \<Rightarrow> string option"
  cdns_NewAdapter_err :: "cdns_Config \<Rightarrow> string option"
  cdns_NewUpdater_err :: "cdns_Config \<Rightarrow> string option"
  controller_Start_err :: "updater \<Rightarrow> string option"

section \<open>init: the flag table\<close>

text \<open>
  The first argument of \<^verbatim>\<open>flag.StringVar(&v, name, default, usage)\<close> is a pointer to a
  package-level variable. Pointers are kept apart by the type of what they point to.
\<close>

datatype bool_var = P_debug

datatype string_var =
    P_kubeconfig | P_elbLabelValue | P_elbRegion | P_r53HostedZone | P_pushgatewayURL
  | P_internalHostname | P_externalHostname | P_dnsProvider | P_cdnsHostedZone
  | P_cdnsInstanceGroupPrefix

datatype duration_var = P_resyncPeriod | P_cnameTimeToLive

datatype int_var = P_healthPort | P_pushgatewayIntervalSeconds | P_awsAPIRetries

datatype value_var = P_albNames | P_pushgatewayLabels

fun set_bool :: "bool_var \<Rightarrow> bool \<Rightarrow> globals \<Rightarrow> globals" where
  "set_bool P_debug b g = g\<lparr>debug := b\<rparr>"

fun set_string :: "string_var \<Rightarrow> string \<Rightarrow> globals \<Rightarrow> globals" where
  "set_string P_kubeconfig s g = g\<lparr>kubeconfig := s\<rparr>"
| "set_string P_elbLabelValue s g = g\<lparr>elbLabelValue := s\<rparr>"
| "set_string P_elbRegion s g = g\<lparr>elbRegion := s\<rparr>"
| "set_string P_r53HostedZone s g = g\<lparr>r53HostedZone := s\<rparr>"
| "set_string P_pushgatewayURL s g = g\<lparr>pushgatewayURL := s\<rparr>"
| "set_string P_internalHostname s g = g\<lparr>internalHostname := s\<rparr>"
| "set_string P_externalHostname s g = g\<lparr>externalHostname := s\<rparr>"
| "set_string P_dnsProvider s g = g\<lparr>dnsProvider := s\<rparr>"
| "set_string P_cdnsHostedZone s g = g\<lparr>cdnsHostedZone := s\<rparr>"
| "set_string P_cdnsInstanceGroupPrefix s g = g\<lparr>cdnsInstanceGroupPrefix := s\<rparr>"

fun set_duration :: "duration_var \<Rightarrow> duration \<Rightarrow> globals \<Rightarrow> globals" where
  "set_duration P_resyncPeriod d g = g\<lparr>resyncPeriod := d\<rparr>"
| "set_duration P_cnameTimeToLive d g = g\<lparr>cnameTimeToLive := d\<rparr>"

fun set_int :: "int_var \<Rightarrow> int \<Rightarrow> globals \<Rightarrow> globals" where
  "set_int P_healthPort i g = g\<lparr>healthPort := i\<rparr>"
| "set_int P_pushgatewayIntervalSeconds i g = g\<lparr>pushgatewayIntervalSeconds := i\<rparr>"
| "set_int P_awsAPIRetries i g = g\<lparr>awsAPIRetries := i\<rparr>"

text \<open>The \<^verbatim>\<open>const ( ... )\<close> block of \<^verbatim>\<open>init\<close>.\<close>

definition defaultResyncPeriod :: duration where
  "defaultResyncPeriod = Minute * 15"

definition defaultHealthPort :: int where
  "defaultHealthPort = 12082"

definition defaultElbRegion :: string where
  "defaultElbRegion = ''eu-west-1''"

definition defaultElbLabelValue :: string where
  "defaultElbLabelValue = ''''"

definition defaultHostedZone :: string where
  "defaultHostedZone = ''''"

definition defaultPushgatewayIntervalSeconds :: int where
  "defaultPushgatewayIntervalSeconds = 60"

definition defaultAwsAPIRetries :: int where
  "defaultAwsAPIRetries = 5"

definition defaultCnameTTL :: duration where
  "defaultCnameTTL = 5 * Minute"

definition defaultCdnsInstanceGroupPrefix :: string where
  "defaultCdnsInstanceGroupPrefix = ''''"

definition defaultDnsProvider :: string where
  "defaultDnsProvider = ''''"

text \<open>
  One registration per \<^verbatim>\<open>flag.*Var\<close> call: the variable pointed to and the default
  (\<^verbatim>\<open>flag.Var\<close> takes a \<^verbatim>\<open>flag.Value\<close> and no default). The usage strings are left out.
\<close>

datatype flag_def =
    BoolVar bool_var bool
  | StringVar string_var string
  | DurationVar duration_var duration
  | IntVar int_var int
  | Var value_var

text \<open>The calls of \<^verbatim>\<open>init\<close>, in the order of the source, each with its flag name.\<close>

definition flags :: "(string \<times> flag_def) list" where
  "flags =
     [ (''debug'', BoolVar P_debug False),
       (''kubeconfig'', StringVar P_kubeconfig ''''),
       (''resync-period'', DurationVar P_resyncPeriod defaultResyncPeriod),
       (''health-port'', IntVar P_healthPort defaultHealthPort),
       (''alb-names'', Var P_albNames),
       (''elb-region'', StringVar P_elbRegion defaultElbRegion),
       (''elb-label-value'', StringVar P_elbLabelValue defaultElbLabelValue),
       (''r53-hosted-zone'', StringVar P_r53HostedZone defaultHostedZone),
       (''pushgateway'', StringVar P_pushgatewayURL ''''),
       (''pushgateway-interval'', IntVar P_pushgatewayIntervalSeconds defaultPushgatewayIntervalSeconds),
       (''pushgateway-label'', Var P_pushgatewayLabels),
       (''aws-api-retries'', IntVar P_awsAPIRetries defaultAwsAPIRetries),
       (''internal-hostname'', StringVar P_internalHostname ''''),
       (''external-hostname'', StringVar P_externalHostname ''''),
       (''cname-ttl'', DurationVar P_cnameTimeToLive defaultCnameTTL),
       (''dns-provider'', StringVar P_cdnsHostedZone defaultDnsProvider),
       (''cdns-hosted-zone'', StringVar P_cdnsHostedZone defaultHostedZone),
       (''cdns-instance-group-prefix'', StringVar P_cdnsInstanceGroupPrefix defaultCdnsInstanceGroupPrefix) ]"

text \<open>Registering a flag stores its default through the pointer.\<close>

fun register :: "flag_def \<Rightarrow> globals \<Rightarrow> globals" where
  "register (BoolVar p d) g = set_bool p d g"
| "register (StringVar p d) g = set_string p d g"
| "register (DurationVar p d) g = set_duration p d g"
| "register (IntVar p d) g = set_int p d g"
| "register (Var p) g = g"

text \<open>The variables as \<^verbatim>\<open>init\<close> leaves them.\<close>

definition init :: globals where
  "init = fold (\<lambda>(name, d). register d) flags zero_globals"

section \<open>flag.Parse\<close>

text \<open>
  The command line is the list of its \<^verbatim>\<open>-name=value\<close> settings, in order. A flag's value
  is converted by the parser of the flag's type and stored through the flag's pointer;
  an unknown name or a value that does not convert ends the process (\<open>None\<close>), as
  \<^verbatim>\<open>flag.ExitOnError\<close> does.
\<close>

fun flag_Set :: "extern \<Rightarrow> flag_def \<Rightarrow> string \<Rightarrow> globals \<Rightarrow> globals option" where
  "flag_Set ext (BoolVar p d) s g = map_option (\<lambda>b. set_bool p b g) (ParseBool ext s)"
| "flag_Set ext (StringVar p d) s g = Some (set_string p s g)"
| "flag_Set ext (DurationVar p d) s g = map_option (\<lambda>t. set_duration p t g) (ParseDuration ext s)"
| "flag_Set ext (IntVar p d) s g = map_option (\<lambda>i. set_int p i g) (ParseInt ext s)"
| "flag_Set ext (Var P_albNames) s g =
     map_option (\<lambda>v. g\<lparr>albNames := v\<rparr>) (CommaSeparatedValues_Set ext (albNames g) s)"
| "flag_Set ext (Var P_pushgatewayLabels) s g =
     map_option (\<lambda>v. g\<lparr>pushgatewayLabels := v\<rparr>) (KeyValues_Set ext (pushgatewayLabels g) s)"

fun Parse :: "extern \<Rightarrow> (string \<times> string) list \<Rightarrow> globals \<Rightarrow> globals option" where
  "Parse ext [] g = Some g"
| "Parse ext ((name, s) # rest) g =
     (case map_of flags name of
        None \<Rightarrow> None
      | Some d \<Rightarrow>
          (case flag_Set ext d s g of
             None \<Rightarrow> None
           | Some g' \<Rightarrow> Parse ext rest g'))"

section \<open>Validation\<close>

text \<open>
  \<^verbatim>\<open>log.Fatal\<close> logs and ends the process: a function that may call it returns the fatal
  message instead, and its caller stops there.
\<close>

datatype error =
    UnableToCreateAwsAdapter string
  | UnableToCreateGcpAdapter string
  | InvalidDnsProvider string
  | NewUpdaterError string

datatype fatal =
    MustSupplyR53HostedZone
  | MustSpecifyAtLeastOne
  | CantSupplyBoth
  | MustSupplyCdnsInstanceGroupPrefix
  | MustSupplyCdnsHostedZone
  | UnableToCreateK8sClient string
  | UnableToCreateDnsUpdater error
  | ErrorWhileStartingController string

definition validateAwsConfig :: "globals \<Rightarrow> fatal option" where
  "validateAwsConfig g =
     (if r53HostedZone g = '''' then Some MustSupplyR53HostedZone
      else if elbLabelValue g = '''' \<and> length (albNames g) = 0
              \<and> internalHostname g = '''' \<and> externalHostname g = ''''
        then Some MustSpecifyAtLeastOne
      else if (internalHostname g \<noteq> '''' \<or> externalHostname g \<noteq> '''')
              \<and> (elbLabelValue g \<noteq> '''' \<or> length (albNames g) > 0)
        then Some CantSupplyBoth
      else None)"

definition validateCdnsConfig :: "globals \<Rightarrow> fatal option" where
  "validateCdnsConfig g =
     (if cdnsInstanceGroupPrefix g = '''' then Some MustSupplyCdnsInstanceGroupPrefix
      else if cdnsHostedZone g = '''' then Some MustSupplyCdnsHostedZone
      else None)"

section \<open>createFrontendUpdater\<close>

text \<open>
  The function ends in one of three ways: the process exits in a validation
  (\<open>Exit\<close>), it returns an error (\<open>Err\<close>), or it returns the updater (\<open>Ok\<close>). Beside
  that result the model returns the adapters the call has constructed, in order.
\<close>

datatype 'a result = Exit fatal | Err error | Ok 'a

definition addressesWithScheme :: "globals \<Rightarrow> (string \<rightharpoonup> string)" where
  "addressesWithScheme g =
     (let m0 = Map.empty;
          m1 = (if internalHostname g \<noteq> '''' then m0(''internal'' \<mapsto> internalHostname g) else m0);
          m2 = (if externalHostname g \<noteq> '''' then m1(''internet-facing'' \<mapsto> externalHostname g) else m1)
      in m2)"

definition createFrontendUpdater :: "extern \<Rightarrow> globals \<Rightarrow> adapter list \<times> updater result" where
  "createFrontendUpdater ext g =
     (if dnsProvider g = ''aws'' then
        (case validateAwsConfig g of
           Some f \<Rightarrow> ([], Exit f)
         | None \<Rightarrow>
             if internalHostname g \<noteq> '''' \<or> externalHostname g \<noteq> '''' then
               (let dnsAdapter = NewStaticHostnameAdapter (addressesWithScheme g) (cnameTimeToLive g)
                in ([dnsAdapter], Ok (dns_New (r53HostedZone g) dnsAdapter (awsAPIRetries g))))
             else
               (let config = \<lparr> Region = elbRegion g, HostedZoneID = r53HostedZone g,
                                ELBLabelValue = elbLabelValue g, ALBNames = albNames g \<rparr>
                in case NewAWSAdapter_err ext config of
                     Some err \<Rightarrow> ([], Err (UnableToCreateAwsAdapter err))
                   | None \<Rightarrow>
                       (let dnsAdapter = NewAWSAdapter config
                        in ([dnsAdapter], Ok (dns_New (r53HostedZone g) dnsAdapter (awsAPIRetries g))))))
      else if dnsProvider g = ''gcp'' then
        (case validateCdnsConfig g of
           Some f \<Rightarrow> ([], Exit f)
         | None \<Rightarrow>
             (let config = \<lparr> InstanceGroupPrefix = cdnsInstanceGroupPrefix g,
                              HostedZone = cdnsHostedZone g \<rparr>
              in case cdns_NewAdapter_err ext config of
                   Some err \<Rightarrow> ([], Err (UnableToCreateGcpAdapter err))
                 | None \<Rightarrow>
                     (let dnsAdapter = cdns_NewAdapter config
                      in case cdns_NewUpdater_err ext config of
                           Some err \<Rightarrow> ([dnsAdapter], Err (NewUpdaterError err))
                         | None \<Rightarrow> ([dnsAdapter], Ok (cdns_NewUpdater config)))))
      else ([], Err (InvalidDnsProvider (dnsProvider g))))"

section \<open>main\<close>

text \<open>
  A run of \<^verbatim>\<open>main\<close> is the sequence of calls it makes into the other packages and the
  way it ends: the flag parser exits, \<^verbatim>\<open>log.Fatal\<close> exits, or \<^verbatim>\<open>select {}\<close> blocks for
  good with the controller started.
\<close>

datatype event =
    ConfigureLogging bool
  | ConfigureMetrics string "(string \<times> string) list" string int
  | k8s_New string duration
  | Construct adapter
  | controller_New updater
  | AddHealthMetrics
  | AddHealthPort int
  | AddSignalHandler
  | controller_Start

datatype ending = FlagError | LogFatal fatal | BlocksForever

definition main_body :: "extern \<Rightarrow> globals \<Rightarrow> event list \<times> ending" where
  "main_body ext g =
     (let t1 = [ConfigureLogging (debug g),
                ConfigureMetrics ''feed-dns'' (pushgatewayLabels g) (pushgatewayURL g)
                  (pushgatewayIntervalSeconds g),
                k8s_New (kubeconfig g) (resyncPeriod g)]
      in case k8s_New_err ext (kubeconfig g) (resyncPeriod g) of
           Some err \<Rightarrow> (t1, LogFatal (UnableToCreateK8sClient err))
         | None \<Rightarrow>
             (case createFrontendUpdater ext g of
                (built, r) \<Rightarrow>
                  (let t2 = t1 @ map Construct built
                   in case r of
                        Exit f \<Rightarrow> (t2, LogFatal f)
                      | Err err \<Rightarrow> (t2, LogFatal (UnableToCreateDnsUpdater err))
                      | Ok dnsUpdater \<Rightarrow>
                          (let t3 = t2 @ [controller_New dnsUpdater, AddHealthMetrics,
                                          AddHealthPort (healthPort g), AddSignalHandler,
                                          controller_Start]
                           in case controller_Start_err ext dnsUpdater of
                                Some err \<Rightarrow> (t3, LogFatal (ErrorWhileStartingController err))
                              | None \<Rightarrow> (t3, BlocksForever)))))"

definition main :: "extern \<Rightarrow> (string \<times> string) list \<Rightarrow> event list \<times> ending" where
  "main ext args =
     (case Parse ext args init of
        None \<Rightarrow> ([], FlagError)
      | Some g \<Rightarrow> main_body ext g)"

section \<open>Helpers of the statements, and sample inputs\<close>

text \<open>An environment in which every call into another package succeeds, with parsers that
  know a few literals.\<close>

definition sample_extern :: extern where
  "sample_extern =
     \<lparr> ParseBool = (\<lambda>s. if s = ''true'' then Some True else if s = ''false'' then Some False else None),
       ParseInt = (\<lambda>s. if s = ''3'' then Some 3 else None),
       ParseDuration = (\<lambda>s. if s = ''1m'' then Some Minute else None),
       CommaSeparatedValues_Set = (\<lambda>cur s. Some [s]),
       KeyValues_Set = (\<lambda>cur s. None),
       k8s_New_err = (\<lambda>path period. None),
       NewAWSAdapter_err = (\<lambda>config. None),
       cdns_NewAdapter_err = (\<lambda>config. None),
       cdns_NewUpdater_err = (\<lambda>config. None),
       controller_Start_err = (\<lambda>u. None) \<rparr>"

text \<open>A command line that asks for the AWS provider with tag discovery.\<close>

definition aws_command_line :: "(string \<times> string) list" where
  "aws_command_line =
     [(''dns-provider'', ''aws''), (''r53-hosted-zone'', ''Z1''), (''elb-label-value'', ''prod'')]"

text \<open>The events of a run that construct an adapter.\<close>

fun is_Construct :: "event \<Rightarrow> bool" where
  "is_Construct (Construct a) = True"
| "is_Construct e = False"

text \<open>A call that did not return a value: the process exited, or an error came back.\<close>

fun failed :: "'a result \<Rightarrow> bool" where
  "failed (Exit f) = True"
| "failed (Err e) = True"
| "failed (Ok x) = False"

text \<open>Values of the package-level variables used as concrete inputs below. Each is \<open>init\<close>
  with a few variables assigned.\<close>

definition gcp_with_static_hostname :: globals where
  "gcp_with_static_hostname =
     init\<lparr>internalHostname := ''lb.example.com'', dnsProvider := ''gcp'',
          cdnsHostedZone := ''zone-1'', cdnsInstanceGroupPrefix := ''ig-''\<rparr>"

definition gcp_config :: cdns_Config where
  "gcp_config = \<lparr> InstanceGroupPrefix = ''ig-'', HostedZone = ''zone-1'' \<rparr>"

definition aws_internal_only :: globals where
  "aws_internal_only =
     init\<lparr>r53HostedZone := ''Z1'', internalHostname := ''lb-internal.example.com'',
          dnsProvider := ''aws''\<rparr>"

definition aws_external_only :: globals where
  "aws_external_only =
     init\<lparr>r53HostedZone := ''Z1'', externalHostname := ''lb-external.example.com'',
          dnsProvider := ''aws''\<rparr>"

definition aws_discovery :: globals where
  "aws_discovery = init\<lparr>elbLabelValue := ''prod'', r53HostedZone := ''Z1'', dnsProvider := ''aws''\<rparr>"

definition aws_discovery_config :: AWSAdapterConfig where
  "aws_discovery_config =
     \<lparr> Region = ''eu-west-1'', HostedZoneID = ''Z1'', ELBLabelValue = ''prod'', ALBNames = [] \<rparr>"

definition gcp_plain :: globals where
  "gcp_plain =
     init\<lparr>dnsProvider := ''gcp'', cdnsHostedZone := ''zone-1'', cdnsInstanceGroupPrefix := ''ig-''\<rparr>"

definition aws_static_and_discovery :: globals where
  "aws_static_and_discovery =
     init\<lparr>elbLabelValue := ''prod'', r53HostedZone := ''Z1'',
          internalHostname := ''lb-internal.example.com'', dnsProvider := ''aws''\<rparr>"

definition aws_no_zone :: globals where
  "aws_no_zone = init\<lparr>elbLabelValue := ''prod'', dnsProvider := ''aws''\<rparr>"

definition aws_nothing_to_resolve :: globals where
  "aws_nothing_to_resolve = init\<lparr>r53HostedZone := ''Z1'', dnsProvider := ''aws''\<rparr>"

definition gcp_no_prefix :: globals where
  "gcp_no_prefix = init\<lparr>dnsProvider := ''gcp'', cdnsHostedZone := ''zone-1''\<rparr>"

definition gcp_no_zone :: globals where
  "gcp_no_zone = init\<lparr>dnsProvider := ''gcp'', cdnsInstanceGroupPrefix := ''ig-''\<rparr>"

section \<open>Properties\<close>

lemma init_eq:
  "init =
     \<lparr> debug = False, kubeconfig = [], resyncPeriod = 900000000000, healthPort = 12082,
       albNames = [], elbLabelValue = [], elbRegion = ''eu-west-1'', r53HostedZone = [],
       pushgatewayURL = [], pushgatewayIntervalSeconds = 60, pushgatewayLabels = [],
       awsAPIRetries = 5, internalHostname = [], externalHostname = [],
       cnameTimeToLive = 300000000000, dnsProvider = [], cdnsHostedZone = [],
       cdnsInstanceGroupPrefix = [] \<rparr>"
  by (simp add: init_def flags_def zero_globals_def defaultResyncPeriod_def
      defaultHealthPort_def defaultElbRegion_def defaultElbLabelValue_def
      defaultHostedZone_def defaultPushgatewayIntervalSeconds_def defaultAwsAPIRetries_def
      defaultCnameTTL_def defaultCdnsInstanceGroupPrefix_def defaultDnsProvider_def
      Minute_def Second_def)

lemma flag_Set_dnsProvider:
  assumes "map_of flags name = Some d" and "flag_Set ext d s g = Some g'"
  shows "dnsProvider g' = dnsProvider g"
  using assms by (auto simp: flags_def split: if_splits)

lemma flag_Set_cnameTimeToLive:
  assumes "map_of flags name = Some d" and "name \<noteq> ''cname-ttl''"
    and "flag_Set ext d s g = Some g'"
  shows "cnameTimeToLive g' = cnameTimeToLive g"
  using assms by (auto simp: flags_def split: if_splits)

lemma flag_Set_awsAPIRetries:
  assumes "map_of flags name = Some d" and "name \<noteq> ''aws-api-retries''"
    and "flag_Set ext d s g = Some g'"
  shows "awsAPIRetries g' = awsAPIRetries g"
  using assms by (auto simp: flags_def split: if_splits)

lemma Parse_dnsProvider:
  "Parse ext args g = Some g' \<Longrightarrow> dnsProvider g' = dnsProvider g"
proof (induction args arbitrary: g)
  case Nil
  then show ?case by simp
next
  case (Cons a args)
  obtain name s where a: "a = (name, s)" by (cases a)
  from Cons.prems a obtain d g1 where
    d: "map_of flags name = Some d" and g1: "flag_Set ext d s g = Some g1"
    and rest: "Parse ext args g1 = Some g'"
    by (auto split: option.splits)
  from Cons.IH [OF rest] flag_Set_dnsProvider [OF d g1] show ?case by simp
qed

lemma Parse_append:
  "Parse ext (xs @ ys) g = (case Parse ext xs g of None \<Rightarrow> None | Some g1 \<Rightarrow> Parse ext ys g1)"
  by (induction xs arbitrary: g) (auto split: option.splits)

lemma Parse_cnameTimeToLive:
  "Parse ext args g = Some g' \<Longrightarrow> ''cname-ttl'' \<notin> fst ` set args \<Longrightarrow>
     cnameTimeToLive g' = cnameTimeToLive g"
proof (induction args arbitrary: g)
  case Nil
  then show ?case by simp
next
  case (Cons a args)
  obtain name s where a: "a = (name, s)" by (cases a)
  from Cons.prems a obtain d g1 where
    d: "map_of flags name = Some d" and g1: "flag_Set ext d s g = Some g1"
    and rest: "Parse ext args g1 = Some g'"
    by (auto split: option.splits)
  from Cons.prems a have ne: "name \<noteq> ''cname-ttl''" and notin: "''cname-ttl'' \<notin> fst ` set args"
    by auto
  from Cons.IH [OF rest notin] flag_Set_cnameTimeToLive [OF d ne g1] show ?case by simp
qed

lemma Parse_awsAPIRetries:
  "Parse ext args g = Some g' \<Longrightarrow> ''aws-api-retries'' \<notin> fst ` set args \<Longrightarrow>
     awsAPIRetries g' = awsAPIRetries g"
proof (induction args arbitrary: g)
  case Nil
  then show ?case by simp
next
  case (Cons a args)
  obtain name s where a: "a = (name, s)" by (cases a)
  from Cons.prems a obtain d g1 where
    d: "map_of flags name = Some d" and g1: "flag_Set ext d s g = Some g1"
    and rest: "Parse ext args g1 = Some g'"
    by (auto split: option.splits)
  from Cons.prems a have ne: "name \<noteq> ''aws-api-retries''"
    and notin: "''aws-api-retries'' \<notin> fst ` set args"
    by auto
  from Cons.IH [OF rest notin] flag_Set_awsAPIRetries [OF d ne g1] show ?case by simp
qed

lemma map_of_cname_ttl: "map_of flags ''cname-ttl'' = Some (DurationVar P_cnameTimeToLive defaultCnameTTL)"
  by (simp add: flags_def)

lemma map_of_aws_api_retries:
  "map_of flags ''aws-api-retries'' = Some (IntVar P_awsAPIRetries defaultAwsAPIRetries)"
  by (simp add: flags_def)

lemma Parse_last_cname_ttl:
  assumes "Parse ext (pre @ (''cname-ttl'', s) # post) g = Some g'"
    and "''cname-ttl'' \<notin> fst ` set post"
  shows "ParseDuration ext s = Some (cnameTimeToLive g')"
proof -
  from assms(1) obtain g1 where g1: "Parse ext pre g = Some g1"
    and r: "Parse ext ((''cname-ttl'', s) # post) g1 = Some g'"
    by (auto simp: Parse_append split: option.splits)
  from r obtain t where t: "ParseDuration ext s = Some t"
    and p: "Parse ext post (g1\<lparr>cnameTimeToLive := t\<rparr>) = Some g'"
    by (auto simp: map_of_cname_ttl split: option.splits)
  from Parse_cnameTimeToLive [OF p assms(2)] t show ?thesis by simp
qed

lemma Parse_last_aws_api_retries:
  assumes "Parse ext (pre @ (''aws-api-retries'', s) # post) g = Some g'"
    and "''aws-api-retries'' \<notin> fst ` set post"
  shows "ParseInt ext s = Some (awsAPIRetries g')"
proof -
  from assms(1) obtain g1 where g1: "Parse ext pre g = Some g1"
    and r: "Parse ext ((''aws-api-retries'', s) # post) g1 = Some g'"
    by (auto simp: Parse_append split: option.splits)
  from r obtain t where t: "ParseInt ext s = Some t"
    and p: "Parse ext post (g1\<lparr>awsAPIRetries := t\<rparr>) = Some g'"
    by (auto simp: map_of_aws_api_retries split: option.splits)
  from Parse_awsAPIRetries [OF p assms(2)] t show ?thesis by simp
qed

text \<open>
  C1 (as the code has it). The claim says that \<^verbatim>\<open>-dns-provider=aws\<close> selects the AWS path
  and \<^verbatim>\<open>-dns-provider=gcp\<close> the Cloud DNS path. \<^verbatim>\<open>init\<close> registers the flag
  \<^verbatim>\<open>dns-provider\<close> on the variable \<^verbatim>\<open>cdnsHostedZone\<close>, so no command line ever stores
  anything in \<^verbatim>\<open>dnsProvider\<close>: after every successful \<^verbatim>\<open>flag.Parse\<close> it is still the empty
  string, and \<^verbatim>\<open>createFrontendUpdater\<close> takes the default branch and returns the
  invalid-provider error, whatever value the flag was given.
\<close>

theorem dns_provider_flag_never_reaches_dnsProvider:
  assumes "Parse ext args init = Some g"
  shows "dnsProvider g = '''' \<and>
         createFrontendUpdater ext g = ([], Err (InvalidDnsProvider ''''))"
proof -
  from Parse_dnsProvider [OF assms] have "dnsProvider g = ''''"
    by (simp add: init_eq)
  then show ?thesis by (simp add: createFrontendUpdater_def)
qed

lemma Parse_aws_command_line:
  "Parse sample_extern aws_command_line init =
     Some (init\<lparr>elbLabelValue := ''prod'', r53HostedZone := ''Z1'', cdnsHostedZone := ''aws''\<rparr>)"
  by (simp add: aws_command_line_def flags_def init_eq)

theorem dns_provider_flag_never_reaches_dnsProvider_witness:
  "Parse sample_extern aws_command_line init =
     Some (init\<lparr>elbLabelValue := ''prod'', r53HostedZone := ''Z1'', cdnsHostedZone := ''aws''\<rparr>)
   \<and> dnsProvider (init\<lparr>elbLabelValue := ''prod'', r53HostedZone := ''Z1'', cdnsHostedZone := ''aws''\<rparr>) = ''''
   \<and> createFrontendUpdater sample_extern
        (init\<lparr>elbLabelValue := ''prod'', r53HostedZone := ''Z1'', cdnsHostedZone := ''aws''\<rparr>)
       = ([], Err (InvalidDnsProvider ''''))
   \<and> snd (main sample_extern aws_command_line)
       = LogFatal (UnableToCreateDnsUpdater (InvalidDnsProvider ''''))"
proof -
  note bug = dns_provider_flag_never_reaches_dnsProvider [OF Parse_aws_command_line]
  have k8s: "k8s_New_err sample_extern path period = None" for path period
    by (simp add: sample_extern_def)
  have "snd (main sample_extern aws_command_line)
          = LogFatal (UnableToCreateDnsUpdater (InvalidDnsProvider ''''))"
    using bug by (simp add: main_def main_body_def Parse_aws_command_line k8s)
  with bug show ?thesis by (simp add: Parse_aws_command_line)
qed

lemma sample_extern_simps [simp]:
  "k8s_New_err sample_extern path period = None"
  "NewAWSAdapter_err sample_extern c = None"
  "cdns_NewAdapter_err sample_extern c' = None"
  "cdns_NewUpdater_err sample_extern c' = None"
  "controller_Start_err sample_extern u = None"
  by (simp_all add: sample_extern_def)

lemma built_at_most_one: "length (fst (createFrontendUpdater ext g)) \<le> 1"
  by (simp add: createFrontendUpdater_def Let_def split: option.splits)

lemma filter_Construct_map [simp]: "filter is_Construct (map Construct xs) = map Construct xs"
  by (induction xs) simp_all

lemma main_body_constructs:
  "length (filter is_Construct (fst (main_body ext g))) \<le> 1"
proof -
  obtain built r where c: "createFrontendUpdater ext g = (built, r)"
    by (cases "createFrontendUpdater ext g")
  with built_at_most_one [of ext g] have "length built \<le> 1" by simp
  with c show ?thesis
    by (simp add: main_body_def Let_def split: option.splits result.splits)
qed

text \<open>
  C2 (counterexample). With provider \<^verbatim>\<open>gcp\<close> and a static hostname configured, the adapter
  that is constructed is the Cloud DNS one, not the static one, and the updater returned
  is built by \<^verbatim>\<open>cdns.NewUpdater(config)\<close>: it is not handed the adapter just constructed.
\<close>

theorem gcp_updater_not_given_adapter:
  "internalHostname gcp_with_static_hostname = ''lb.example.com''
   \<and> createFrontendUpdater sample_extern gcp_with_static_hostname
        = ([cdns_NewAdapter gcp_config], Ok (cdns_NewUpdater gcp_config))
   \<and> updater_adapter (cdns_NewUpdater gcp_config) = None"
  by (simp add: gcp_with_static_hostname_def gcp_config_def init_eq createFrontendUpdater_def
      validateCdnsConfig_def Let_def)

text \<open>
  C2 (amended). Whenever \<^verbatim>\<open>createFrontendUpdater\<close> succeeds it has constructed exactly one
  adapter. On the \<^verbatim>\<open>aws\<close> path that adapter is the static-hostname adapter when a static
  hostname is configured and the AWS adapter otherwise, and it is the adapter handed to
  the returned updater. On the \<^verbatim>\<open>gcp\<close> path it is the Cloud DNS adapter, and the returned
  updater is built from the Cloud DNS configuration alone. A run of \<^verbatim>\<open>main\<close> constructs
  at most one adapter.
\<close>

theorem createFrontendUpdater_constructs_one_adapter:
  assumes "createFrontendUpdater ext g = (built, Ok u)"
  shows "(\<exists>a. built = [a] \<and>
            (if dnsProvider g = ''aws'' then
               updater_adapter u = Some a \<and>
               a = (if internalHostname g \<noteq> '''' \<or> externalHostname g \<noteq> ''''
                    then NewStaticHostnameAdapter (addressesWithScheme g) (cnameTimeToLive g)
                    else NewAWSAdapter \<lparr> Region = elbRegion g, HostedZoneID = r53HostedZone g,
                           ELBLabelValue = elbLabelValue g, ALBNames = albNames g \<rparr>)
             else
               dnsProvider g = ''gcp'' \<and>
               a = cdns_NewAdapter \<lparr> InstanceGroupPrefix = cdnsInstanceGroupPrefix g,
                                      HostedZone = cdnsHostedZone g \<rparr> \<and>
               u = cdns_NewUpdater \<lparr> InstanceGroupPrefix = cdnsInstanceGroupPrefix g,
                                      HostedZone = cdnsHostedZone g \<rparr> \<and>
               updater_adapter u = None))
         \<and> length (filter is_Construct (fst (main_body ext g))) \<le> 1"
proof -
  have "\<exists>a. built = [a] \<and>
            (if dnsProvider g = ''aws'' then
               updater_adapter u = Some a \<and>
               a = (if internalHostname g \<noteq> '''' \<or> externalHostname g \<noteq> ''''
                    then NewStaticHostnameAdapter (addressesWithScheme g) (cnameTimeToLive g)
                    else NewAWSAdapter \<lparr> Region = elbRegion g, HostedZoneID = r53HostedZone g,
                           ELBLabelValue = elbLabelValue g, ALBNames = albNames g \<rparr>)
             else
               dnsProvider g = ''gcp'' \<and>
               a = cdns_NewAdapter \<lparr> InstanceGroupPrefix = cdnsInstanceGroupPrefix g,
                                      HostedZone = cdnsHostedZone g \<rparr> \<and>
               u = cdns_NewUpdater \<lparr> InstanceGroupPrefix = cdnsInstanceGroupPrefix g,
                                      HostedZone = cdnsHostedZone g \<rparr> \<and>
               updater_adapter u = None)"
    using assms
    by (auto simp: createFrontendUpdater_def Let_def split: if_splits option.splits)
  with main_body_constructs [of ext g] show ?thesis by blast
qed

lemma aws_internal_only_fields:
  "dnsProvider aws_internal_only = ''aws''"
  "r53HostedZone aws_internal_only = ''Z1''"
  "elbLabelValue aws_internal_only = ''''"
  "albNames aws_internal_only = []"
  "internalHostname aws_internal_only = ''lb-internal.example.com''"
  "externalHostname aws_internal_only = ''''"
  "cnameTimeToLive aws_internal_only = 300000000000"
  "awsAPIRetries aws_internal_only = 5"
  by (simp_all add: aws_internal_only_def init_eq)

lemma aws_internal_only_run:
  "createFrontendUpdater sample_extern aws_internal_only =
     ([NewStaticHostnameAdapter (addressesWithScheme aws_internal_only) 300000000000],
      Ok (dns_New ''Z1''
            (NewStaticHostnameAdapter (addressesWithScheme aws_internal_only) 300000000000) 5))"
  by (simp add: aws_internal_only_fields createFrontendUpdater_def validateAwsConfig_def Let_def)

theorem createFrontendUpdater_constructs_one_adapter_witness:
  "fst (createFrontendUpdater sample_extern aws_internal_only) =
     [NewStaticHostnameAdapter (addressesWithScheme aws_internal_only) 300000000000]
   \<and> updater_adapter (dns_New ''Z1''
        (NewStaticHostnameAdapter (addressesWithScheme aws_internal_only) 300000000000) 5)
      = Some (NewStaticHostnameAdapter (addressesWithScheme aws_internal_only) 300000000000)
   \<and> length (filter is_Construct (fst (main_body sample_extern aws_internal_only))) \<le> 1"
  using createFrontendUpdater_constructs_one_adapter [OF aws_internal_only_run]
  by (simp add: aws_internal_only_run)

text \<open>
  C3. When a validation fails (\<^verbatim>\<open>log.Fatal\<close> in \<^verbatim>\<open>validateAwsConfig\<close> or
  \<^verbatim>\<open>validateCdnsConfig\<close>) or \<^verbatim>\<open>createFrontendUpdater\<close> returns an error, \<^verbatim>\<open>main\<close> ends in
  \<^verbatim>\<open>log.Fatal\<close> and \<^verbatim>\<open>controller.Start\<close> is not among the calls it has made; this holds
  for the body of \<^verbatim>\<open>main\<close> on any values of the variables, and for \<^verbatim>\<open>main\<close> on any
  command line that parses to them.
\<close>

theorem config_error_stops_before_controller_Start:
  assumes "(dnsProvider g = ''aws'' \<and> validateAwsConfig g \<noteq> None)
           \<or> (dnsProvider g = ''gcp'' \<and> validateCdnsConfig g \<noteq> None)
           \<or> failed (snd (createFrontendUpdater ext g))"
  shows "controller_Start \<notin> set (fst (main_body ext g))
         \<and> (\<exists>m. snd (main_body ext g) = LogFatal m)
         \<and> (Parse ext args init = Some g \<longrightarrow>
              controller_Start \<notin> set (fst (main ext args))
              \<and> (\<exists>m. snd (main ext args) = LogFatal m))"
proof -
  obtain built r where c: "createFrontendUpdater ext g = (built, r)"
    by (cases "createFrontendUpdater ext g")
  from assms c have f: "failed r"
    by (auto simp: createFrontendUpdater_def split: if_splits)
  have body: "controller_Start \<notin> set (fst (main_body ext g))
         \<and> (\<exists>m. snd (main_body ext g) = LogFatal m)"
  proof (cases r)
    case (Exit x)
    with c show ?thesis
      by (auto simp: main_body_def Let_def split: option.splits)
  next
    case (Err x)
    with c show ?thesis
      by (auto simp: main_body_def Let_def split: option.splits)
  next
    case (Ok x)
    with f show ?thesis by simp
  qed
  then show ?thesis by (simp add: main_def)
qed

theorem config_error_stops_before_controller_Start_witness:
  "validateAwsConfig aws_no_zone = Some MustSupplyR53HostedZone
   \<and> controller_Start \<notin> set (fst (main_body sample_extern aws_no_zone))
   \<and> snd (main_body sample_extern aws_no_zone) = LogFatal MustSupplyR53HostedZone"
proof -
  have v: "validateAwsConfig aws_no_zone = Some MustSupplyR53HostedZone"
    and p: "dnsProvider aws_no_zone = ''aws''"
    by (simp_all add: aws_no_zone_def init_eq validateAwsConfig_def)
  from p v have h: "(dnsProvider aws_no_zone = ''aws'' \<and> validateAwsConfig aws_no_zone \<noteq> None)
           \<or> (dnsProvider aws_no_zone = ''gcp'' \<and> validateCdnsConfig aws_no_zone \<noteq> None)
           \<or> failed (snd (createFrontendUpdater sample_extern aws_no_zone))"
    by simp
  have e: "snd (main_body sample_extern aws_no_zone) = LogFatal MustSupplyR53HostedZone"
    using p v by (simp add: main_body_def createFrontendUpdater_def)
  from config_error_stops_before_controller_Start [OF h] v e show ?thesis by simp
qed

lemma main_body_Exit:
  assumes "createFrontendUpdater ext g = (built, Exit f)"
    and "k8s_New_err ext (kubeconfig g) (resyncPeriod g) = None"
  shows "snd (main_body ext g) = LogFatal f"
  using assms by (simp add: main_body_def)

text \<open>
  C4. On the \<^verbatim>\<open>aws\<close> path, a static hostname (\<^verbatim>\<open>internal-hostname\<close> or
  \<^verbatim>\<open>external-hostname\<close>) together with a discovery source (\<^verbatim>\<open>elb-label-value\<close> or
  \<^verbatim>\<open>alb-names\<close>) makes \<^verbatim>\<open>validateAwsConfig\<close> call \<^verbatim>\<open>log.Fatal\<close>: the process exits in
  \<^verbatim>\<open>createFrontendUpdater\<close> with no adapter constructed and no updater returned, and
  \<^verbatim>\<open>main\<close> never reaches \<^verbatim>\<open>controller.New\<close>.
\<close>

theorem static_hostname_with_discovery_is_fatal:
  assumes "dnsProvider g = ''aws''"
    and "internalHostname g \<noteq> '''' \<or> externalHostname g \<noteq> ''''"
    and "elbLabelValue g \<noteq> '''' \<or> albNames g \<noteq> []"
  shows "validateAwsConfig g =
           Some (if r53HostedZone g = '''' then MustSupplyR53HostedZone else CantSupplyBoth)
         \<and> createFrontendUpdater ext g =
             ([], Exit (if r53HostedZone g = '''' then MustSupplyR53HostedZone else CantSupplyBoth))
         \<and> (\<exists>m. snd (main_body ext g) = LogFatal m)
         \<and> (\<forall>u. controller_New u \<notin> set (fst (main_body ext g)))"
proof -
  from assms have v: "validateAwsConfig g =
      Some (if r53HostedZone g = '''' then MustSupplyR53HostedZone else CantSupplyBoth)"
    by (auto simp: validateAwsConfig_def)
  with assms(1) have c: "createFrontendUpdater ext g =
      ([], Exit (if r53HostedZone g = '''' then MustSupplyR53HostedZone else CantSupplyBoth))"
    by (simp add: createFrontendUpdater_def)
  have "(\<exists>m. snd (main_body ext g) = LogFatal m)
         \<and> (\<forall>u. controller_New u \<notin> set (fst (main_body ext g)))"
    by (auto simp: main_body_def Let_def c split: option.splits)
  with v c show ?thesis by simp
qed

lemma aws_static_and_discovery_fields:
  "dnsProvider aws_static_and_discovery = ''aws''"
  "r53HostedZone aws_static_and_discovery = ''Z1''"
  "elbLabelValue aws_static_and_discovery = ''prod''"
  "internalHostname aws_static_and_discovery = ''lb-internal.example.com''"
  by (simp_all add: aws_static_and_discovery_def init_eq)

theorem static_hostname_with_discovery_is_fatal_witness:
  "internalHostname aws_static_and_discovery = ''lb-internal.example.com''
   \<and> elbLabelValue aws_static_and_discovery = ''prod''
   \<and> createFrontendUpdater sample_extern aws_static_and_discovery = ([], Exit CantSupplyBoth)
   \<and> snd (main_body sample_extern aws_static_and_discovery) = LogFatal CantSupplyBoth"
proof -
  have a: "dnsProvider aws_static_and_discovery = ''aws''"
    and b: "internalHostname aws_static_and_discovery \<noteq> ''''
            \<or> externalHostname aws_static_and_discovery \<noteq> ''''"
    and c: "elbLabelValue aws_static_and_discovery \<noteq> ''''
            \<or> albNames aws_static_and_discovery \<noteq> []"
    by (simp_all add: aws_static_and_discovery_fields)
  from static_hostname_with_discovery_is_fatal [OF a b c, of sample_extern]
  have r: "createFrontendUpdater sample_extern aws_static_and_discovery = ([], Exit CantSupplyBoth)"
    by (simp add: aws_static_and_discovery_fields)
  from main_body_Exit [OF r] have "snd (main_body sample_extern aws_static_and_discovery)
      = LogFatal CantSupplyBoth"
    by simp
  with r show ?thesis by (simp add: aws_static_and_discovery_fields)
qed

text \<open>
  C5. Missing mandatory configuration is fatal. On the \<^verbatim>\<open>aws\<close> path the process exits in
  \<^verbatim>\<open>validateAwsConfig\<close> when \<^verbatim>\<open>r53-hosted-zone\<close> is empty, and when \<^verbatim>\<open>alb-names\<close>,
  \<^verbatim>\<open>elb-label-value\<close>, \<^verbatim>\<open>internal-hostname\<close> and \<^verbatim>\<open>external-hostname\<close> are all unset; on
  the \<^verbatim>\<open>gcp\<close> path it exits in \<^verbatim>\<open>validateCdnsConfig\<close> when \<^verbatim>\<open>cdnsInstanceGroupPrefix\<close> is
  empty, and when \<^verbatim>\<open>cdnsHostedZone\<close> is empty. The fatal message is the one \<^verbatim>\<open>main\<close> ends
  with once the Kubernetes client has been created.
\<close>

theorem missing_mandatory_config_is_fatal:
  "(dnsProvider g = ''aws'' \<and> r53HostedZone g = '''' \<longrightarrow>
      createFrontendUpdater ext g = ([], Exit MustSupplyR53HostedZone))
   \<and> (dnsProvider g = ''aws'' \<and> albNames g = [] \<and> elbLabelValue g = ''''
        \<and> internalHostname g = '''' \<and> externalHostname g = '''' \<longrightarrow>
      createFrontendUpdater ext g =
        ([], Exit (if r53HostedZone g = '''' then MustSupplyR53HostedZone
                   else MustSpecifyAtLeastOne)))
   \<and> (dnsProvider g = ''gcp'' \<and> cdnsInstanceGroupPrefix g = '''' \<longrightarrow>
      createFrontendUpdater ext g = ([], Exit MustSupplyCdnsInstanceGroupPrefix))
   \<and> (dnsProvider g = ''gcp'' \<and> cdnsHostedZone g = '''' \<longrightarrow>
      createFrontendUpdater ext g =
        ([], Exit (if cdnsInstanceGroupPrefix g = '''' then MustSupplyCdnsInstanceGroupPrefix
                   else MustSupplyCdnsHostedZone)))
   \<and> (createFrontendUpdater ext g = ([], Exit f)
        \<and> k8s_New_err ext (kubeconfig g) (resyncPeriod g) = None \<longrightarrow>
      snd (main_body ext g) = LogFatal f \<and> controller_Start \<notin> set (fst (main_body ext g)))"
proof -
  have aws1: "dnsProvider g = ''aws'' \<and> r53HostedZone g = '''' \<longrightarrow>
      createFrontendUpdater ext g = ([], Exit MustSupplyR53HostedZone)"
    by (simp add: createFrontendUpdater_def validateAwsConfig_def)
  have aws2: "dnsProvider g = ''aws'' \<and> albNames g = [] \<and> elbLabelValue g = ''''
        \<and> internalHostname g = '''' \<and> externalHostname g = '''' \<longrightarrow>
      createFrontendUpdater ext g =
        ([], Exit (if r53HostedZone g = '''' then MustSupplyR53HostedZone
                   else MustSpecifyAtLeastOne))"
    by (simp add: createFrontendUpdater_def validateAwsConfig_def)
  have gcp1: "dnsProvider g = ''gcp'' \<and> cdnsInstanceGroupPrefix g = '''' \<longrightarrow>
      createFrontendUpdater ext g = ([], Exit MustSupplyCdnsInstanceGroupPrefix)"
    by (simp add: createFrontendUpdater_def validateCdnsConfig_def)
  have gcp2: "dnsProvider g = ''gcp'' \<and> cdnsHostedZone g = '''' \<longrightarrow>
      createFrontendUpdater ext g =
        ([], Exit (if cdnsInstanceGroupPrefix g = '''' then MustSupplyCdnsInstanceGroupPrefix
                   else MustSupplyCdnsHostedZone))"
    by (simp add: createFrontendUpdater_def validateCdnsConfig_def)
  have m: "createFrontendUpdater ext g = ([], Exit f)
        \<and> k8s_New_err ext (kubeconfig g) (resyncPeriod g) = None \<longrightarrow>
      snd (main_body ext g) = LogFatal f \<and> controller_Start \<notin> set (fst (main_body ext g))"
    by (simp add: main_body_def)
  from aws1 aws2 gcp1 gcp2 m show ?thesis by blast
qed

lemma missing_config_fields:
  "dnsProvider aws_no_zone = ''aws''" "r53HostedZone aws_no_zone = ''''"
  "dnsProvider aws_nothing_to_resolve = ''aws''" "r53HostedZone aws_nothing_to_resolve = ''Z1''"
  "albNames aws_nothing_to_resolve = []" "elbLabelValue aws_nothing_to_resolve = ''''"
  "internalHostname aws_nothing_to_resolve = ''''" "externalHostname aws_nothing_to_resolve = ''''"
  "dnsProvider gcp_no_prefix = ''gcp''" "cdnsInstanceGroupPrefix gcp_no_prefix = ''''"
  "dnsProvider gcp_no_zone = ''gcp''" "cdnsHostedZone gcp_no_zone = ''''"
  "cdnsInstanceGroupPrefix gcp_no_zone = ''ig-''"
  by (simp_all add: aws_no_zone_def aws_nothing_to_resolve_def gcp_no_prefix_def
      gcp_no_zone_def init_eq)

theorem missing_mandatory_config_is_fatal_witness:
  "createFrontendUpdater sample_extern aws_no_zone = ([], Exit MustSupplyR53HostedZone)
   \<and> createFrontendUpdater sample_extern aws_nothing_to_resolve = ([], Exit MustSpecifyAtLeastOne)
   \<and> createFrontendUpdater sample_extern gcp_no_prefix = ([], Exit MustSupplyCdnsInstanceGroupPrefix)
   \<and> createFrontendUpdater sample_extern gcp_no_zone = ([], Exit MustSupplyCdnsHostedZone)
   \<and> snd (main_body sample_extern gcp_no_zone) = LogFatal MustSupplyCdnsHostedZone"
proof -
  have 1: "createFrontendUpdater sample_extern aws_no_zone = ([], Exit MustSupplyR53HostedZone)"
    using missing_mandatory_config_is_fatal [of aws_no_zone sample_extern]
    by (simp add: missing_config_fields)
  have 2: "createFrontendUpdater sample_extern aws_nothing_to_resolve = ([], Exit MustSpecifyAtLeastOne)"
    using missing_mandatory_config_is_fatal [of aws_nothing_to_resolve sample_extern]
    by (simp add: missing_config_fields)
  have 3: "createFrontendUpdater sample_extern gcp_no_prefix = ([], Exit MustSupplyCdnsInstanceGroupPrefix)"
    using missing_mandatory_config_is_fatal [of gcp_no_prefix sample_extern]
    by (simp add: missing_config_fields)
  have 4: "createFrontendUpdater sample_extern gcp_no_zone = ([], Exit MustSupplyCdnsHostedZone)"
    using missing_mandatory_config_is_fatal [of gcp_no_zone sample_extern]
    by (simp add: missing_config_fields)
  have 5: "snd (main_body sample_extern gcp_no_zone) = LogFatal MustSupplyCdnsHostedZone"
    using missing_mandatory_config_is_fatal [of gcp_no_zone sample_extern MustSupplyCdnsHostedZone] 4
    by simp
  from 1 2 3 4 5 show ?thesis by simp
qed

lemma static_adapter_built:
  assumes "NewStaticHostnameAdapter m t \<in> set (fst (createFrontendUpdater ext g))"
  shows "m = addressesWithScheme g \<and> t = cnameTimeToLive g \<and> dnsProvider g = ''aws''
         \<and> (internalHostname g \<noteq> '''' \<or> externalHostname g \<noteq> '''')"
  using assms
  by (auto simp: createFrontendUpdater_def Let_def split: if_splits option.splits)

lemma addressesWithScheme_internal:
  "addressesWithScheme g ''internal'' =
     (if internalHostname g = '''' then None else Some (internalHostname g))"
  by (simp add: addressesWithScheme_def Let_def)

lemma addressesWithScheme_external:
  "addressesWithScheme g ''internet-facing'' =
     (if externalHostname g = '''' then None else Some (externalHostname g))"
  by (simp add: addressesWithScheme_def Let_def)

lemma dom_addressesWithScheme:
  "dom (addressesWithScheme g) =
     (if internalHostname g = '''' then {} else {''internal''})
     \<union> (if externalHostname g = '''' then {} else {''internet-facing''})"
  by (auto simp: addressesWithScheme_def Let_def split: if_splits)

text \<open>
  C6. The map handed to \<^verbatim>\<open>NewStaticHostnameAdapter\<close> is built from the two per-scheme
  overrides and nothing else: it maps \<^verbatim>\<open>"internal"\<close> to \<^verbatim>\<open>internalHostname\<close> exactly when
  that is nonempty, \<^verbatim>\<open>"internet-facing"\<close> to \<^verbatim>\<open>externalHostname\<close> exactly when that is
  nonempty, and has no other key. On the \<^verbatim>\<open>aws\<close> path with a static hostname configured
  and validation passed, that adapter is the one constructed.
\<close>

theorem static_adapter_map_exact:
  "(dnsProvider g = ''aws'' \<and> (internalHostname g \<noteq> '''' \<or> externalHostname g \<noteq> '''')
      \<and> validateAwsConfig g = None \<longrightarrow>
      (\<exists>m'. fst (createFrontendUpdater ext g) = [NewStaticHostnameAdapter m' (cnameTimeToLive g)]))
   \<and> (NewStaticHostnameAdapter m t \<in> set (fst (createFrontendUpdater ext g)) \<longrightarrow>
        m ''internal'' = (if internalHostname g = '''' then None else Some (internalHostname g))
        \<and> m ''internet-facing'' =
            (if externalHostname g = '''' then None else Some (externalHostname g))
        \<and> dom m = (if internalHostname g = '''' then {} else {''internal''})
                   \<union> (if externalHostname g = '''' then {} else {''internet-facing''}))"
proof -
  have built: "dnsProvider g = ''aws'' \<and> (internalHostname g \<noteq> '''' \<or> externalHostname g \<noteq> '''')
      \<and> validateAwsConfig g = None \<longrightarrow>
      (\<exists>m'. fst (createFrontendUpdater ext g) = [NewStaticHostnameAdapter m' (cnameTimeToLive g)])"
    by (auto simp: createFrontendUpdater_def Let_def)
  have exact: "NewStaticHostnameAdapter m t \<in> set (fst (createFrontendUpdater ext g)) \<longrightarrow>
        m ''internal'' = (if internalHostname g = '''' then None else Some (internalHostname g))
        \<and> m ''internet-facing'' =
            (if externalHostname g = '''' then None else Some (externalHostname g))
        \<and> dom m = (if internalHostname g = '''' then {} else {''internal''})
                   \<union> (if externalHostname g = '''' then {} else {''internet-facing''})"
  proof
    assume "NewStaticHostnameAdapter m t \<in> set (fst (createFrontendUpdater ext g))"
    then have "m = addressesWithScheme g" by (simp add: static_adapter_built)
    then show "m ''internal'' = (if internalHostname g = '''' then None else Some (internalHostname g))
        \<and> m ''internet-facing'' =
            (if externalHostname g = '''' then None else Some (externalHostname g))
        \<and> dom m = (if internalHostname g = '''' then {} else {''internal''})
                   \<union> (if externalHostname g = '''' then {} else {''internet-facing''})"
      using addressesWithScheme_internal [of g] addressesWithScheme_external [of g]
        dom_addressesWithScheme [of g]
      by simp
  qed
  from built exact show ?thesis by blast
qed

lemma aws_external_only_fields:
  "dnsProvider aws_external_only = ''aws''"
  "r53HostedZone aws_external_only = ''Z1''"
  "elbLabelValue aws_external_only = ''''"
  "albNames aws_external_only = []"
  "internalHostname aws_external_only = ''''"
  "externalHostname aws_external_only = ''lb-external.example.com''"
  "cnameTimeToLive aws_external_only = 300000000000"
  "awsAPIRetries aws_external_only = 5"
  by (simp_all add: aws_external_only_def init_eq)

lemma aws_external_only_run:
  "createFrontendUpdater sample_extern aws_external_only =
     ([NewStaticHostnameAdapter (addressesWithScheme aws_external_only) 300000000000],
      Ok (dns_New ''Z1''
            (NewStaticHostnameAdapter (addressesWithScheme aws_external_only) 300000000000) 5))"
  by (simp add: aws_external_only_fields createFrontendUpdater_def validateAwsConfig_def Let_def)

theorem static_adapter_map_exact_witness:
  "NewStaticHostnameAdapter (addressesWithScheme aws_external_only) 300000000000
     \<in> set (fst (createFrontendUpdater sample_extern aws_external_only))
   \<and> addressesWithScheme aws_external_only ''internal'' = None
   \<and> addressesWithScheme aws_external_only ''internet-facing'' = Some ''lb-external.example.com''
   \<and> dom (addressesWithScheme aws_external_only) = {''internet-facing''}"
proof -
  have mem: "NewStaticHostnameAdapter (addressesWithScheme aws_external_only) 300000000000
     \<in> set (fst (createFrontendUpdater sample_extern aws_external_only))"
    by (simp add: aws_external_only_run)
  from static_adapter_map_exact [of aws_external_only sample_extern
      "addressesWithScheme aws_external_only" 300000000000] mem
  show ?thesis by (simp add: aws_external_only_fields)
qed

text \<open>
  C7. A static-hostname adapter is always constructed with \<^verbatim>\<open>cnameTimeToLive\<close>, the variable
  of the flag \<^verbatim>\<open>cname-ttl\<close>. That variable is 5 minutes (300000000000 ns) when the
  command line has no \<^verbatim>\<open>cname-ttl\<close>, and otherwise the parsed value of the last
  \<^verbatim>\<open>cname-ttl\<close> given.
\<close>

theorem static_adapter_gets_cname_ttl:
  "(NewStaticHostnameAdapter m t \<in> set (fst (createFrontendUpdater ext g)) \<longrightarrow>
      t = cnameTimeToLive g)
   \<and> defaultCnameTTL = 300000000000
   \<and> (Parse ext args init = Some g1 \<and> ''cname-ttl'' \<notin> fst ` set args \<longrightarrow>
        cnameTimeToLive g1 = defaultCnameTTL)
   \<and> (Parse ext (pre @ (''cname-ttl'', s) # post) init = Some g2
        \<and> ''cname-ttl'' \<notin> fst ` set post \<longrightarrow>
        ParseDuration ext s = Some (cnameTimeToLive g2))"
proof -
  have d: "defaultCnameTTL = 300000000000"
    by (simp add: defaultCnameTTL_def Minute_def Second_def)
  have i: "cnameTimeToLive init = defaultCnameTTL"
    by (simp add: init_eq d)
  have a: "NewStaticHostnameAdapter m t \<in> set (fst (createFrontendUpdater ext g)) \<longrightarrow>
      t = cnameTimeToLive g"
    by (simp add: static_adapter_built)
  have b: "Parse ext args init = Some g1 \<and> ''cname-ttl'' \<notin> fst ` set args \<longrightarrow>
        cnameTimeToLive g1 = defaultCnameTTL"
    using Parse_cnameTimeToLive [of ext args init g1] i by simp
  have c: "Parse ext (pre @ (''cname-ttl'', s) # post) init = Some g2
        \<and> ''cname-ttl'' \<notin> fst ` set post \<longrightarrow>
        ParseDuration ext s = Some (cnameTimeToLive g2)"
    using Parse_last_cname_ttl [of ext pre s post init g2] by simp
  from a b c d show ?thesis by blast
qed

lemma Parse_cname_ttl_1m:
  "Parse sample_extern [(''r53-hosted-zone'', ''Z1''), (''cname-ttl'', ''1m'')] init
     = Some (init\<lparr>r53HostedZone := ''Z1'', cnameTimeToLive := 60000000000\<rparr>)"
  by (simp add: flags_def init_eq sample_extern_def Minute_def Second_def)

lemma Parse_r53_only:
  "Parse sample_extern [(''r53-hosted-zone'', ''Z1'')] init = Some (init\<lparr>r53HostedZone := ''Z1''\<rparr>)"
  by (simp add: flags_def)

theorem static_adapter_gets_cname_ttl_witness:
  "NewStaticHostnameAdapter (addressesWithScheme aws_internal_only) 300000000000
     \<in> set (fst (createFrontendUpdater sample_extern aws_internal_only))
   \<and> cnameTimeToLive aws_internal_only = 300000000000
   \<and> cnameTimeToLive (init\<lparr>r53HostedZone := ''Z1''\<rparr>) = 300000000000
   \<and> ParseDuration sample_extern ''1m'' = Some 60000000000
   \<and> cnameTimeToLive (init\<lparr>r53HostedZone := ''Z1'', cnameTimeToLive := 60000000000\<rparr>) = 60000000000"
proof -
  have mem: "NewStaticHostnameAdapter (addressesWithScheme aws_internal_only) 300000000000
     \<in> set (fst (createFrontendUpdater sample_extern aws_internal_only))"
    by (simp add: aws_internal_only_run)
  have p: "Parse sample_extern ([(''r53-hosted-zone'', ''Z1'')] @ (''cname-ttl'', ''1m'') # []) init
     = Some (init\<lparr>r53HostedZone := ''Z1'', cnameTimeToLive := 60000000000\<rparr>)"
    using Parse_cname_ttl_1m by simp
  note t = static_adapter_gets_cname_ttl [of "addressesWithScheme aws_internal_only" 300000000000
      sample_extern aws_internal_only "[(''r53-hosted-zone'', ''Z1'')]" "init\<lparr>r53HostedZone := ''Z1''\<rparr>"
      "[(''r53-hosted-zone'', ''Z1'')]" "''1m''" "[]"
      "init\<lparr>r53HostedZone := ''Z1'', cnameTimeToLive := 60000000000\<rparr>"]
  from t mem p Parse_r53_only show ?thesis by simp
qed

text \<open>
  C8. On the \<^verbatim>\<open>aws\<close> path the updater is built by \<^verbatim>\<open>dns.New\<close> with \<^verbatim>\<open>awsAPIRetries\<close>, the
  variable of the flag \<^verbatim>\<open>aws-api-retries\<close>, as its retry bound. That variable is 5 when
  the command line has no \<^verbatim>\<open>aws-api-retries\<close>, and otherwise the parsed value of the last
  \<^verbatim>\<open>aws-api-retries\<close> given.
\<close>

theorem aws_updater_gets_api_retries:
  "(dnsProvider g = ''aws'' \<and> createFrontendUpdater ext g = (built, Ok u) \<longrightarrow>
      (\<exists>a. u = dns_New (r53HostedZone g) a (awsAPIRetries g))
      \<and> updater_retries u = Some (awsAPIRetries g))
   \<and> defaultAwsAPIRetries = 5
   \<and> (Parse ext args init = Some g1 \<and> ''aws-api-retries'' \<notin> fst ` set args \<longrightarrow>
        awsAPIRetries g1 = defaultAwsAPIRetries)
   \<and> (Parse ext (pre @ (''aws-api-retries'', s) # post) init = Some g2
        \<and> ''aws-api-retries'' \<notin> fst ` set post \<longrightarrow>
        ParseInt ext s = Some (awsAPIRetries g2))"
proof -
  have d: "defaultAwsAPIRetries = 5"
    by (simp add: defaultAwsAPIRetries_def)
  have i: "awsAPIRetries init = defaultAwsAPIRetries"
    by (simp add: init_eq d)
  have a: "dnsProvider g = ''aws'' \<and> createFrontendUpdater ext g = (built, Ok u) \<longrightarrow>
      (\<exists>a. u = dns_New (r53HostedZone g) a (awsAPIRetries g))
      \<and> updater_retries u = Some (awsAPIRetries g)"
    by (auto simp: createFrontendUpdater_def Let_def split: if_splits option.splits)
  have b: "Parse ext args init = Some g1 \<and> ''aws-api-retries'' \<notin> fst ` set args \<longrightarrow>
        awsAPIRetries g1 = defaultAwsAPIRetries"
    using Parse_awsAPIRetries [of ext args init g1] i by simp
  have c: "Parse ext (pre @ (''aws-api-retries'', s) # post) init = Some g2
        \<and> ''aws-api-retries'' \<notin> fst ` set post \<longrightarrow>
        ParseInt ext s = Some (awsAPIRetries g2)"
    using Parse_last_aws_api_retries [of ext pre s post init g2] by simp
  from a b c d show ?thesis by blast
qed

lemma aws_discovery_fields:
  "dnsProvider aws_discovery = ''aws''"
  "r53HostedZone aws_discovery = ''Z1''"
  "elbLabelValue aws_discovery = ''prod''"
  "albNames aws_discovery = []"
  "internalHostname aws_discovery = ''''"
  "externalHostname aws_discovery = ''''"
  "elbRegion aws_discovery = ''eu-west-1''"
  "awsAPIRetries aws_discovery = 5"
  by (simp_all add: aws_discovery_def init_eq)

lemma aws_discovery_run:
  "createFrontendUpdater sample_extern aws_discovery =
     ([NewAWSAdapter aws_discovery_config],
      Ok (dns_New ''Z1'' (NewAWSAdapter aws_discovery_config) 5))"
  by (simp add: aws_discovery_fields aws_discovery_config_def createFrontendUpdater_def
      validateAwsConfig_def Let_def)

lemma Parse_retries_3:
  "Parse sample_extern [(''r53-hosted-zone'', ''Z1''), (''aws-api-retries'', ''3'')] init
     = Some (init\<lparr>r53HostedZone := ''Z1'', awsAPIRetries := 3\<rparr>)"
  by (simp add: flags_def init_eq sample_extern_def)

theorem aws_updater_gets_api_retries_witness:
  "createFrontendUpdater sample_extern aws_discovery =
     ([NewAWSAdapter aws_discovery_config],
      Ok (dns_New ''Z1'' (NewAWSAdapter aws_discovery_config) 5))
   \<and> awsAPIRetries aws_discovery = 5
   \<and> updater_retries (dns_New ''Z1'' (NewAWSAdapter aws_discovery_config) 5) = Some 5
   \<and> awsAPIRetries (init\<lparr>r53HostedZone := ''Z1''\<rparr>) = 5
   \<and> ParseInt sample_extern ''3'' = Some 3
   \<and> awsAPIRetries (init\<lparr>r53HostedZone := ''Z1'', awsAPIRetries := 3\<rparr>) = 3"
proof -
  have p: "Parse sample_extern ([(''r53-hosted-zone'', ''Z1'')] @ (''aws-api-retries'', ''3'') # []) init
     = Some (init\<lparr>r53HostedZone := ''Z1'', awsAPIRetries := 3\<rparr>)"
    using Parse_retries_3 by simp
  note t = aws_updater_gets_api_retries [of aws_discovery sample_extern
      "[NewAWSAdapter aws_discovery_config]" "dns_New ''Z1'' (NewAWSAdapter aws_discovery_config) 5"
      "[(''r53-hosted-zone'', ''Z1'')]" "init\<lparr>r53HostedZone := ''Z1''\<rparr>"
      "[(''r53-hosted-zone'', ''Z1'')]" "''3''" "[]"
      "init\<lparr>r53HostedZone := ''Z1'', awsAPIRetries := 3\<rparr>"]
  from t p Parse_r53_only aws_discovery_run show ?thesis
    by (simp add: aws_discovery_fields)
qed

text \<open>
  C9. On the \<^verbatim>\<open>aws\<close> path, with a hosted zone and no discovery source, giving exactly one
  of \<^verbatim>\<open>internal-hostname\<close> and \<^verbatim>\<open>external-hostname\<close> passes \<^verbatim>\<open>validateAwsConfig\<close>; the
  static-hostname adapter is constructed and handed to the updater, and its map has the
  one key of the scheme that was given, so the other scheme has no hostname.
\<close>

theorem single_static_hostname_is_accepted:
  assumes "dnsProvider g = ''aws''"
    and "r53HostedZone g \<noteq> ''''"
    and "elbLabelValue g = ''''"
    and "albNames g = []"
    and "(internalHostname g \<noteq> '''' \<and> externalHostname g = '''')
         \<or> (internalHostname g = '''' \<and> externalHostname g \<noteq> '''')"
  shows "validateAwsConfig g = None
         \<and> (\<exists>m. createFrontendUpdater ext g =
                  ([NewStaticHostnameAdapter m (cnameTimeToLive g)],
                   Ok (dns_New (r53HostedZone g) (NewStaticHostnameAdapter m (cnameTimeToLive g))
                         (awsAPIRetries g)))
                \<and> (if internalHostname g \<noteq> ''''
                    then dom m = {''internal''} \<and> m ''internal'' = Some (internalHostname g)
                         \<and> m ''internet-facing'' = None
                    else dom m = {''internet-facing''}
                         \<and> m ''internet-facing'' = Some (externalHostname g)
                         \<and> m ''internal'' = None))"
proof -
  from assms have v: "validateAwsConfig g = None"
    by (auto simp: validateAwsConfig_def)
  from assms(1,5) v have c: "createFrontendUpdater ext g =
      ([NewStaticHostnameAdapter (addressesWithScheme g) (cnameTimeToLive g)],
       Ok (dns_New (r53HostedZone g)
             (NewStaticHostnameAdapter (addressesWithScheme g) (cnameTimeToLive g))
             (awsAPIRetries g)))"
    by (auto simp: createFrontendUpdater_def Let_def)
  from assms(5) have m: "if internalHostname g \<noteq> ''''
      then dom (addressesWithScheme g) = {''internal''}
           \<and> addressesWithScheme g ''internal'' = Some (internalHostname g)
           \<and> addressesWithScheme g ''internet-facing'' = None
      else dom (addressesWithScheme g) = {''internet-facing''}
           \<and> addressesWithScheme g ''internet-facing'' = Some (externalHostname g)
           \<and> addressesWithScheme g ''internal'' = None"
    using addressesWithScheme_internal [of g] addressesWithScheme_external [of g]
      dom_addressesWithScheme [of g]
    by auto
  from v c m show ?thesis by blast
qed

theorem single_static_hostname_is_accepted_witness:
  "validateAwsConfig aws_internal_only = None
   \<and> createFrontendUpdater sample_extern aws_internal_only =
     ([NewStaticHostnameAdapter (addressesWithScheme aws_internal_only) 300000000000],
      Ok (dns_New ''Z1''
            (NewStaticHostnameAdapter (addressesWithScheme aws_internal_only) 300000000000) 5))
   \<and> addressesWithScheme aws_internal_only ''internal'' = Some ''lb-internal.example.com''
   \<and> addressesWithScheme aws_internal_only ''internet-facing'' = None"
proof -
  have a: "dnsProvider aws_internal_only = ''aws''"
    and b: "r53HostedZone aws_internal_only \<noteq> ''''"
    and c: "elbLabelValue aws_internal_only = ''''"
    and d: "albNames aws_internal_only = []"
    and e: "(internalHostname aws_internal_only \<noteq> '''' \<and> externalHostname aws_internal_only = '''')
         \<or> (internalHostname aws_internal_only = '''' \<and> externalHostname aws_internal_only \<noteq> '''')"
    by (simp_all add: aws_internal_only_fields)
  from single_static_hostname_is_accepted [OF a b c d e, of sample_extern]
  show ?thesis
    by (simp add: aws_internal_only_run addressesWithScheme_internal
        addressesWithScheme_external aws_internal_only_fields)
qed

text \<open>
  C10. On the \<^verbatim>\<open>gcp\<close> branch \<^verbatim>\<open>internalHostname\<close> and \<^verbatim>\<open>externalHostname\<close> are not read:
  changing them changes neither what \<^verbatim>\<open>createFrontendUpdater\<close> constructs and returns nor
  the run of \<^verbatim>\<open>main\<close>.
\<close>

theorem static_hostnames_unread_on_gcp:
  assumes "dnsProvider g = ''gcp''"
  shows "createFrontendUpdater ext (g\<lparr>internalHostname := a, externalHostname := b\<rparr>)
           = createFrontendUpdater ext g
         \<and> main_body ext (g\<lparr>internalHostname := a, externalHostname := b\<rparr>) = main_body ext g"
proof -
  from assms have c: "createFrontendUpdater ext (g\<lparr>internalHostname := a, externalHostname := b\<rparr>)
           = createFrontendUpdater ext g"
    by (simp add: createFrontendUpdater_def validateCdnsConfig_def)
  have "main_body ext (g\<lparr>internalHostname := a, externalHostname := b\<rparr>) = main_body ext g"
    unfolding main_body_def c
    by (simp add: Let_def split: option.splits prod.splits result.splits)
  with c show ?thesis by simp
qed

lemma gcp_plain_fields:
  "dnsProvider gcp_plain = ''gcp''"
  "gcp_plain\<lparr>internalHostname := ''lb.example.com'', externalHostname := ''''\<rparr>
     = gcp_with_static_hostname"
  by (simp_all add: gcp_plain_def gcp_with_static_hostname_def init_eq)

theorem static_hostnames_unread_on_gcp_witness:
  "dnsProvider gcp_plain = ''gcp''
   \<and> createFrontendUpdater sample_extern gcp_with_static_hostname
       = createFrontendUpdater sample_extern gcp_plain
   \<and> createFrontendUpdater sample_extern gcp_plain
       = ([cdns_NewAdapter gcp_config], Ok (cdns_NewUpdater gcp_config))"
proof -
  have r: "createFrontendUpdater sample_extern gcp_plain
       = ([cdns_NewAdapter gcp_config], Ok (cdns_NewUpdater gcp_config))"
    by (simp add: gcp_plain_def gcp_config_def init_eq createFrontendUpdater_def
        validateCdnsConfig_def Let_def)
  from static_hostnames_unread_on_gcp [OF gcp_plain_fields(1),
      where ext = sample_extern and a = "''lb.example.com''" and b = "''''"] r
  show ?thesis by (simp add: gcp_plain_fields)
qed

end
